theory Spec2Isabelle
  imports Main
begin

section \<open>Errors\<close>

text \<open>
  Every \<^verbatim>\<open>throw\<close> and every rejected promise of the JavaScript is a value of
  \<open>js_error\<close>; a function that can throw returns \<open>js_error + 'a\<close> with \<open>Inl\<close> the
  error. \<open>Error msg\<close> is \<^verbatim>\<open>new Error(msg)\<close>, which is what the bcrypt package and
  \<^verbatim>\<open>jwt.sign\<close> throw; \<open>JsonWebTokenError\<close> and \<open>TokenExpiredError\<close> are the two
  error classes of \<^verbatim>\<open>jwt.verify\<close>; \<open>ENOENT path\<close> is the error of Node's \<^verbatim>\<open>fs\<close>
  module for a path that does not exist.
\<close>

datatype js_error =
    Error string
  | JsonWebTokenError string
  | TokenExpiredError string
  | ENOENT string

section \<open>The bcrypt package\<close>

text \<open>
  The repository calls \<^verbatim>\<open>bcrypt.hash(this.Password, 10)\<close> and
  \<^verbatim>\<open>bcrypt.compare(Password, this.Password)\<close>. The package is not part of the
  repository; it is modelled by the format of its output and by its argument checks.
  A bcrypt string is a setting followed by the encoded digest. The setting is the
  version (\<^verbatim>\<open>$2$\<close>, \<^verbatim>\<open>$2a$\<close> or \<^verbatim>\<open>$2b$\<close>; the package writes \<^verbatim>\<open>$2b$\<close>), the
  cost as two digits (4 to 31), \<^verbatim>\<open>$\<close> and 22 characters of salt. The digest itself
  (the expensive Blowfish key schedule, which also decides how much of the key it
  reads under each version) is the parameter \<open>bf\<close> of the model: \<open>bf key setting\<close>.
  Nothing is assumed about it.
\<close>

definition bcrypt_alphabet :: string where
  "bcrypt_alphabet = ''./ABCDEFGHIJKLMNOPQRSTUVWXYZabcdefghijklmnopqrstuvwxyz0123456789''"

definition is_digit :: "char \<Rightarrow> bool" where
  "is_digit c = (c \<in> set ''0123456789'')"

definition valid_salt :: "string \<Rightarrow> bool" where
  "valid_salt s = (length s = 22 \<and> list_all (\<lambda>c. c \<in> set bcrypt_alphabet) s)"

definition digit_value :: "char \<Rightarrow> nat" where
  "digit_value c = of_char c - 48"

text \<open>The length of the version that a string starts with, if it starts with one.\<close>

definition version_length :: "string \<Rightarrow> nat option" where
  "version_length h =
     (if take 3 h = ''$2$'' then Some 3
      else if take 4 h = ''$2a$'' \<or> take 4 h = ''$2b$'' then Some 4
      else None)"

text \<open>What follows the version in a setting: the cost, \<^verbatim>\<open>$\<close> and the salt.\<close>

definition valid_cost_salt :: "string \<Rightarrow> bool" where
  "valid_cost_salt t =
     (length t = 25 \<and> is_digit (t ! 0) \<and> is_digit (t ! 1) \<and> t ! 2 = CHR ''$''
      \<and> 4 \<le> digit_value (t ! 0) * 10 + digit_value (t ! 1)
      \<and> digit_value (t ! 0) * 10 + digit_value (t ! 1) \<le> 31
      \<and> valid_salt (drop 3 t))"

definition valid_setting :: "string \<Rightarrow> bool" where
  "valid_setting s =
     (case version_length s of None \<Rightarrow> False | Some n \<Rightarrow> valid_cost_salt (drop n s))"

text \<open>
  The setting that a stored string starts with, or \<open>None\<close> when it starts with no
  well-formed setting.
\<close>

definition setting_of :: "string \<Rightarrow> string option" where
  "setting_of h =
     (case version_length h of
        None \<Rightarrow> None
      | Some n \<Rightarrow> if valid_setting (take (n + 25) h) then Some (take (n + 25) h) else None)"

definition two_digits :: "nat \<Rightarrow> string" where
  "two_digits n = [''0123456789'' ! (n div 10 mod 10), ''0123456789'' ! (n mod 10)]"

text \<open>
  The random source of \<^verbatim>\<open>genSalt\<close>: \<open>pool r i\<close> is the i-th salt it hands out
  (already encoded), \<open>drawn r\<close> counts the salts handed out so far. Each call of
  \<^verbatim>\<open>bcrypt.hash\<close> with a number of rounds draws exactly one salt.
\<close>

record rng =
  pool :: "nat \<Rightarrow> string"
  drawn :: nat

definition genSalt :: "nat \<Rightarrow> rng \<Rightarrow> string \<times> rng" where
  "genSalt rounds r =
     (''$2b$'' @ two_digits (if rounds < 4 then 4 else if 31 < rounds then 31 else rounds)
        @ ''$'' @ pool r (drawn r),
      r\<lparr>drawn := Suc (drawn r)\<rparr>)"

definition bcrypt_string :: "(string \<Rightarrow> string \<Rightarrow> string) \<Rightarrow> string \<Rightarrow> string \<Rightarrow> string" where
  "bcrypt_string bf key setting = setting @ bf key setting"

text \<open>
  \<open>None\<close> stands for a JavaScript \<^verbatim>\<open>undefined\<close> or \<^verbatim>\<open>null\<close> argument; both
  functions reject it before doing anything else. \<^verbatim>\<open>hash\<close> with a number of rounds
  generates the salt itself; \<^verbatim>\<open>compare\<close> gives \<^verbatim>\<open>false\<close> for a stored string
  that starts with no well-formed setting, and otherwise recomputes the bcrypt string
  of the data under the setting that the stored string starts with and compares the
  two strings.
\<close>

definition bcrypt_hash ::
  "(string \<Rightarrow> string \<Rightarrow> string) \<Rightarrow> string option \<Rightarrow> nat \<Rightarrow> rng \<Rightarrow> js_error + string \<times> rng" where
  "bcrypt_hash bf data rounds r =
     (case data of
        None \<Rightarrow> Inl (Error ''data and salt arguments required'')
      | Some key \<Rightarrow>
          (case genSalt rounds r of (setting, r') \<Rightarrow> Inr (bcrypt_string bf key setting, r')))"

definition bcrypt_compare ::
  "(string \<Rightarrow> string \<Rightarrow> string) \<Rightarrow> string option \<Rightarrow> string option \<Rightarrow> js_error + bool" where
  "bcrypt_compare bf data hash =
     (case data of
        None \<Rightarrow> Inl (Error ''data and hash arguments required'')
      | Some key \<Rightarrow>
          (case hash of
             None \<Rightarrow> Inl (Error ''data and hash arguments required'')
           | Some h \<Rightarrow>
               Inr (case setting_of h of
                      None \<Rightarrow> False
                    | Some setting \<Rightarrow> bcrypt_string bf key setting = h)))"

section \<open>The user document\<close>

text \<open>
  The code of the user model is listed in \<^verbatim>\<open>src/newTerms.md\<close>. A Mongoose document
  of the user schema is the fields that the methods read (\<open>u_id\<close> is \<^verbatim>\<open>_id\<close>), and
  the set of paths Mongoose has marked as modified since the document was last
  persisted, which is what \<^verbatim>\<open>this.isModified(path)\<close> looks up. \<open>Password\<close> is
  \<open>None\<close> when the document carries no value for the field.
\<close>

record user =
  u_id :: string
  username :: string
  email :: string
  fullName :: string
  Password :: "string option"
  modifiedPaths :: "string set"

definition isModified :: "user \<Rightarrow> string \<Rightarrow> bool" where
  "isModified u path = (path \<in> modifiedPaths u)"

text \<open>
  \<^verbatim>\<open>userSchema.pre('save', async function (next) { ... })\<close>, lines 735 to 740 of
  \<^verbatim>\<open>src/newTerms.md\<close>: the document handed on to the save by \<^verbatim>\<open>next()\<close>, or the
  error that aborts it. The hook runs in a world that holds the random source.
\<close>

definition pre_save ::
  "(string \<Rightarrow> string \<Rightarrow> string) \<Rightarrow> user \<times> rng \<Rightarrow> js_error + user \<times> rng" where
  "pre_save bf s =
     (case s of (u, r) \<Rightarrow>
        if \<not> isModified u ''Password'' then Inr (u, r)
        else (case bcrypt_hash bf (Password u) 10 r of
                Inl e \<Rightarrow> Inl e
              | Inr (h, r') \<Rightarrow> Inr (u\<lparr>Password := Some h\<rparr>, r')))"

text \<open>
  \<^verbatim>\<open>userSchema.methods.comparePassword\<close>, lines 777 to 779: the attempt is the
  argument, \<open>u\<close> is \<^verbatim>\<open>this\<close>.
\<close>

definition comparePassword ::
  "(string \<Rightarrow> string \<Rightarrow> string) \<Rightarrow> string option \<Rightarrow> user \<Rightarrow> js_error + bool" where
  "comparePassword bf attempt u = bcrypt_compare bf attempt (Password u)"

section \<open>The jsonwebtoken package\<close>

text \<open>
  \<^verbatim>\<open>jwt.sign(payload, secretOrPrivateKey, {expiresIn})\<close> and \<^verbatim>\<open>jwt.verify\<close> are
  modelled symbolically: a token is the claims it carries together with the key that
  signed it, and a signature verifies under that key and under no other. \<open>sign\<close>
  refuses a missing or empty secret before anything else, stamps the claims with
  \<^verbatim>\<open>iat\<close> (the time of the call) and \<^verbatim>\<open>exp\<close>, and refuses an \<^verbatim>\<open>expiresIn\<close> that
  is no time span. The package's reading of a time span, \<open>timespan expiresIn iat\<close>
  (the absolute expiry, or \<open>None\<close> when the string is no time span), is a parameter.
\<close>

datatype claim = Str string | Num int

record jwt =
  claims :: "(string \<times> claim) list"
  signing_key :: string

definition jwt_sign ::
  "(string \<Rightarrow> int \<Rightarrow> int option) \<Rightarrow> int \<Rightarrow> (string \<times> claim) list \<Rightarrow> string option \<Rightarrow> string
     \<Rightarrow> js_error + jwt" where
  "jwt_sign timespan now payload secretOrPrivateKey expiresIn =
     (case secretOrPrivateKey of
        None \<Rightarrow> Inl (Error ''secretOrPrivateKey must have a value'')
      | Some k \<Rightarrow>
          if k = [] then Inl (Error ''secretOrPrivateKey must have a value'')
          else if expiresIn = [] then Inl (Error ''expiresIn should be a number of seconds or string representing a timespan'')
          else (case timespan expiresIn now of
                  None \<Rightarrow> Inl (Error ''expiresIn should be a number of seconds or string representing a timespan'')
                | Some e \<Rightarrow>
                    Inr \<lparr>claims = payload @ [(''iat'', Num now), (''exp'', Num e)], signing_key = k\<rparr>))"


section \<open>Token issuance\<close>

text \<open>
  \<^verbatim>\<open>userSchema.methods.generateAccessToken\<close>, lines 826 to 889 of
  \<^verbatim>\<open>src/newTerms.md\<close>. \<open>process_env\<close> is \<^verbatim>\<open>process.env\<close>, \<open>u\<close> is \<^verbatim>\<open>this\<close>,
  \<open>now\<close> is the clock in seconds. The source writes the option
  \<^verbatim>\<open>expiresIn: JWT_ACCESS_TOKEN_EXPIRY\<close> with a plain identifier whose declaration is
  not in the source; it is a parameter here.
\<close>

definition generateAccessToken ::
  "(string \<Rightarrow> int \<Rightarrow> int option) \<Rightarrow> int \<Rightarrow> (string \<rightharpoonup> string) \<Rightarrow> string \<Rightarrow> user \<Rightarrow> js_error + jwt" where
  "generateAccessToken timespan now process_env JWT_ACCESS_TOKEN_EXPIRY u =
     jwt_sign timespan now
       [(''_id'', Str (u_id u)),
        (''username'', Str (username u)),
        (''email'', Str (email u)),
        (''fullName'', Str (fullName u))]
       (process_env ''JWT_ACCESS_TOKEN_SECRET'')
       JWT_ACCESS_TOKEN_EXPIRY"

text \<open>
  \<^verbatim>\<open>generateRefreshToken\<close>: lines 897 to 904 of \<^verbatim>\<open>src/newTerms.md\<close> give it as
  identical to the access token's function but for the secret,
  \<^verbatim>\<open>process.env.JWT_REFRESH_TOKEN_SECRET\<close>, and the expiry,
  \<^verbatim>\<open>JWT_REFRESH_TOKEN_EXPIRY\<close>.
\<close>

definition generateRefreshToken ::
  "(string \<Rightarrow> int \<Rightarrow> int option) \<Rightarrow> int \<Rightarrow> (string \<rightharpoonup> string) \<Rightarrow> string \<Rightarrow> user \<Rightarrow> js_error + jwt" where
  "generateRefreshToken timespan now process_env JWT_REFRESH_TOKEN_EXPIRY u =
     jwt_sign timespan now
       [(''_id'', Str (u_id u)),
        (''username'', Str (username u)),
        (''email'', Str (email u)),
        (''fullName'', Str (fullName u))]
       (process_env ''JWT_REFRESH_TOKEN_SECRET'')
       JWT_REFRESH_TOKEN_EXPIRY"

section \<open>The upload helper\<close>

text \<open>
  \<^verbatim>\<open>uploadonCloudinary\<close> of \<^verbatim>\<open>src/utils/cloudinary.js\<close>. The file system is the
  set of paths of the files that exist; \<^verbatim>\<open>fs.unlinkSync\<close> removes a file and throws
  for a path that does not exist. \<^verbatim>\<open>cloudinary.uploader.upload\<close> is the parameter
  \<open>upload\<close>: the upload result, or the error it throws. What the helper returns is
  \<^verbatim>\<open>null\<close>, \<^verbatim>\<open>undefined\<close>, an upload result, or the \<^verbatim>\<open>response\<close> object the
  module imports from express. The path is \<open>None\<close> for \<^verbatim>\<open>undefined\<close> or \<^verbatim>\<open>null\<close>,
  which are falsy as the empty string is.
\<close>

datatype 'r js_return = Null | Undefined | UploadResult 'r | ExpressResponse

definition unlinkSync :: "string \<Rightarrow> string set \<Rightarrow> js_error + string set" where
  "unlinkSync path files = (if path \<in> files then Inr (files - {path}) else Inl (ENOENT path))"

text \<open>
  The \<^verbatim>\<open>console.log\<close> of the success branch prints \<^verbatim>\<open>response.url\<close>, a property
  the imported object does not have; it cannot throw and changes nothing the helper
  returns.
\<close>

definition uploadonCloudinary ::
  "(string \<Rightarrow> js_error + 'r) \<Rightarrow> string option \<Rightarrow> string set \<Rightarrow> js_error + 'r js_return \<times> string set" where
  "uploadonCloudinary upload localfilepath files =
     (case localfilepath of
        None \<Rightarrow> Inr (Null, files)
      | Some path \<Rightarrow>
          if path = [] then Inr (Null, files)
          else (case upload path of
                  Inr uploadResult \<Rightarrow> Inr (ExpressResponse, files)
                | Inl error \<Rightarrow>
                    (case unlinkSync path files of
                       Inl e \<Rightarrow> Inl e
                     | Inr files' \<Rightarrow> Inr (Undefined, files'))))"

section \<open>Concrete inputs\<close>

text \<open>The inputs at which the theorems below are instantiated.\<close>

definition toy_bf :: "string \<Rightarrow> string \<Rightarrow> string" where
  "toy_bf key setting = rev key"

definition salts :: "nat \<Rightarrow> string" where
  "salts i = (if even i then ''N9qo8uLOickgx2ZMRZoMye'' else ''KIXQJnWcZ1rYz3fd0Qm1Ue'')"

definition rng0 :: rng where
  "rng0 = \<lparr>pool = salts, drawn = 0\<rparr>"

definition alice :: user where
  "alice = \<lparr>u_id = ''65f1c0ffee'', username = ''alice'', email = ''alice@example.com'',
            fullName = ''Alice Liddell'', Password = Some ''Sup3rSecret!'',
            modifiedPaths = {''Password''}\<rparr>"

definition toy_timespan :: "string \<Rightarrow> int \<Rightarrow> int option" where
  "toy_timespan t iat =
     (if t = ''15m'' then Some (iat + 900) else if t = ''7d'' then Some (iat + 604800) else None)"

record upload_api_response =
  url :: string
  resource_type :: string

definition upload_ok :: "string \<Rightarrow> js_error + upload_api_response" where
  "upload_ok path = Inr \<lparr>url = ''http://res.cloudinary.com/demo/'' @ path, resource_type = ''image''\<rparr>"

definition upload_fails :: "string \<Rightarrow> js_error + upload_api_response" where
  "upload_fails path = Inl (Error ''upload failed'')"

text \<open>
  \<open>alice_hashed\<close> is \<open>alice\<close> as the hook hands her on (the hash of her secret
  under the first salt of \<open>rng0\<close> and \<open>toy_bf\<close>); \<open>alice_saved\<close> is that document
  as persisted, after only her email was changed; \<open>mallory\<close> holds a string that is
  no bcrypt string; \<open>unloaded\<close> is a document that carries no \<open>Password\<close>, as a
  query that leaves the field out returns it. \<open>env_same\<close> configures one value for
  both secrets.
\<close>

definition alice_saved :: user where
  "alice_saved = alice\<lparr>Password := Some ''$2b$10$N9qo8uLOickgx2ZMRZoMye!terceSr3puS'',
                       email := ''alice@wonderland.example'', modifiedPaths := {''email''}\<rparr>"




definition env0 :: "string \<rightharpoonup> string" where
  "env0 = [''JWT_ACCESS_TOKEN_SECRET'' \<mapsto> ''access-secret'',
           ''JWT_REFRESH_TOKEN_SECRET'' \<mapsto> ''refresh-secret'']"

definition env_both :: "string \<rightharpoonup> string" where
  "env_both = [''JWT_ACCESS_TOKEN_SECRET'' \<mapsto> ''access-secret'',
               ''JWT_REFRESH_TOKEN_SECRET'' \<mapsto> ''refresh-secret'',
               ''ACCESS_TOKEN_SECRET'' \<mapsto> ''another-secret'',
               ''REFRESH_TOKEN_SECRET'' \<mapsto> ''yet-another-secret'']"

definition env_same :: "string \<rightharpoonup> string" where
  "env_same = [''JWT_ACCESS_TOKEN_SECRET'' \<mapsto> ''shared-secret'',
               ''JWT_REFRESH_TOKEN_SECRET'' \<mapsto> ''shared-secret'']"

definition env_no_access :: "string \<rightharpoonup> string" where
  "env_no_access = [''JWT_REFRESH_TOKEN_SECRET'' \<mapsto> ''refresh-secret'']"

definition env_spec :: "string \<rightharpoonup> string" where
  "env_spec = [''ACCESS_TOKEN_SECRET'' \<mapsto> ''access-secret'',
               ''ACCESS_TOKEN_EXPIRY'' \<mapsto> ''15m'',
               ''REFRESH_TOKEN_SECRET'' \<mapsto> ''refresh-secret'',
               ''REFRESH_TOKEN_EXPIRY'' \<mapsto> ''7d'']"

section \<open>Properties of the bcrypt model\<close>

lemma two_digits_10: "two_digits 10 = ''10''"
  by (simp add: two_digits_def)

lemma valid_setting_genSalt_10:
  assumes "valid_salt s"
  shows "valid_setting (''$2b$10$'' @ s)"
  using assms
  by (simp add: valid_setting_def version_length_def valid_cost_salt_def valid_salt_def
      is_digit_def digit_value_def)

lemma bcrypt_hash_10:
  "bcrypt_hash bf (Some p) 10 r =
     Inr (bcrypt_string bf p (''$2b$10$'' @ pool r (drawn r)), r\<lparr>drawn := Suc (drawn r)\<rparr>)"
  by (simp add: bcrypt_hash_def genSalt_def two_digits_10)

lemma setting_of_bcrypt_string:
  assumes "valid_salt s"
  shows "setting_of (bcrypt_string bf key (''$2b$10$'' @ s)) = Some (''$2b$10$'' @ s)"
proof -
  have v: "version_length (bcrypt_string bf key (''$2b$10$'' @ s)) = Some 4"
    by (simp add: version_length_def bcrypt_string_def)
  have "length (''$2b$10$'' @ s) = 29"
    using assms by (simp add: valid_salt_def)
  then have t: "take 29 (bcrypt_string bf key (''$2b$10$'' @ s)) = ''$2b$10$'' @ s"
    by (simp add: bcrypt_string_def)
  have n: "(4::nat) + 25 = 29"
    by simp
  show ?thesis
    unfolding setting_of_def v option.case n t
    by (simp only: valid_setting_genSalt_10 [OF assms] if_True)
qed

lemma bcrypt_compare_hashed:
  assumes "valid_salt s"
  shows "bcrypt_compare bf (Some a) (Some (bcrypt_string bf p (''$2b$10$'' @ s)))
           = Inr (bf a (''$2b$10$'' @ s) = bf p (''$2b$10$'' @ s))"
proof -
  let ?s = "''$2b$10$'' @ s"
  have "bcrypt_compare bf (Some a) (Some (bcrypt_string bf p ?s))
          = Inr (bcrypt_string bf a ?s = bcrypt_string bf p ?s)"
    unfolding bcrypt_compare_def option.case setting_of_bcrypt_string [OF assms]
    by (simp only: eq_commute [of "bcrypt_string bf p ?s"])
  then show ?thesis
    by (simp add: bcrypt_string_def)
qed

lemma bcrypt_compare_own:
  assumes "valid_salt s"
  shows "bcrypt_compare bf (Some p) (Some (bcrypt_string bf p (''$2b$10$'' @ s))) = Inr True"
  using bcrypt_compare_hashed [OF assms, of bf p p] by simp

lemma bcrypt_string_salt_inj:
  assumes "length s = length s'"
    and "bcrypt_string bf p (pre @ s) = bcrypt_string bf p' (pre @ s')"
  shows "s = s'"
  using assms by (simp add: bcrypt_string_def)

section \<open>Properties of the pre-save hook\<close>

lemma pre_save_modified:
  assumes "Password u = Some p" and "isModified u ''Password''"
  shows "pre_save bf (u, r) =
           Inr (u\<lparr>Password := Some (bcrypt_string bf p (''$2b$10$'' @ pool r (drawn r)))\<rparr>,
                r\<lparr>drawn := Suc (drawn r)\<rparr>)"
  using assms by (simp add: pre_save_def bcrypt_hash_10)

lemma pre_save_unmodified:
  assumes "\<not> isModified u ''Password''"
  shows "pre_save bf (u, r) = Inr (u, r)"
  using assms by (simp add: pre_save_def)

lemma alice_Password: "Password alice = Some ''Sup3rSecret!''"
  by (simp add: alice_def)

lemma alice_modified: "isModified alice ''Password''"
  by (simp add: alice_def isModified_def)

lemma salts_valid: "valid_salt (salts i)"
  by (simp add: salts_def valid_salt_def bcrypt_alphabet_def)

lemma rng0_pool: "pool rng0 = salts"
  by (simp add: rng0_def)

lemma rng0_drawn: "drawn rng0 = 0"
  by (simp add: rng0_def)

text \<open>
  C1. A user is saved with the plaintext \<open>p\<close> in its \<open>Password\<close> field, newly set, so
  that the hook hashes it. Then \<open>comparePassword\<close> of the attempt \<open>p\<close> on the saved
  document resolves to \<open>true\<close>: \<^verbatim>\<open>bcrypt.compare\<close> of \<open>p\<close> against the hash that the
  hook stored succeeds, whatever the plaintext, the salt drawn and the digest function.
\<close>

theorem comparePassword_accepts_saved_secret:
  assumes "Password u = Some p" and "isModified u ''Password''"
    and "valid_salt (pool r (drawn r))"
  shows "\<exists>u' r'. pre_save bf (u, r) = Inr (u', r') \<and> comparePassword bf (Some p) u' = Inr True"
proof -
  let ?h = "bcrypt_string bf p (''$2b$10$'' @ pool r (drawn r))"
  have "pre_save bf (u, r) = Inr (u\<lparr>Password := Some ?h\<rparr>, r\<lparr>drawn := Suc (drawn r)\<rparr>)"
    by (rule pre_save_modified [OF assms(1,2)])
  moreover have "comparePassword bf (Some p) (u\<lparr>Password := Some ?h\<rparr>) = Inr True"
    using bcrypt_compare_own [OF assms(3)] by (simp add: comparePassword_def)
  ultimately show ?thesis by blast
qed

theorem comparePassword_accepts_saved_secret_witness:
  "Password alice = Some ''Sup3rSecret!'' \<and> isModified alice ''Password''
   \<and> valid_salt (pool rng0 (drawn rng0))
   \<and> (\<exists>u' r'. pre_save toy_bf (alice, rng0) = Inr (u', r')
         \<and> comparePassword toy_bf (Some ''Sup3rSecret!'') u' = Inr True)"
proof -
  have v: "valid_salt (pool rng0 (drawn rng0))"
    by (simp add: rng0_pool salts_valid)
  show ?thesis
    using alice_Password alice_modified v
      comparePassword_accepts_saved_secret [OF alice_Password alice_modified v, of toy_bf]
    by blast
qed

text \<open>
  C2. For every user document that holds a secret and every run of the pre-save hook,
  the hash is computed anew (one salt is drawn, \<^verbatim>\<open>bcrypt.hash\<close> is called and its
  result stored) if and only if Mongoose reports the \<open>Password\<close> path as modified;
  a save in which only other paths are modified hands the document on unchanged, the
  stored hash included, and draws no salt.
\<close>

theorem pre_save_rehashes_iff_modified:
  assumes "Password u = Some p"
  shows "\<exists>u' r'. pre_save bf (u, r) = Inr (u', r')
           \<and> (drawn r' = Suc (drawn r)) = isModified u ''Password''
           \<and> (drawn r' = drawn r) = (\<not> isModified u ''Password'')
           \<and> (isModified u ''Password'' \<longrightarrow>
                 (\<exists>h. bcrypt_hash bf (Some p) 10 r = Inr (h, r') \<and> u' = u\<lparr>Password := Some h\<rparr>))
           \<and> (\<not> isModified u ''Password'' \<longrightarrow> u' = u \<and> r' = r)"
proof (cases "isModified u ''Password''")
  case True
  show ?thesis
    using True pre_save_modified [OF assms True, of bf r] by (simp add: bcrypt_hash_10)
next
  case False
  show ?thesis
    using False pre_save_unmodified [OF False, of bf r] by simp
qed

theorem pre_save_rehashes_iff_modified_witness:
  "Password alice_saved = Some ''$2b$10$N9qo8uLOickgx2ZMRZoMye!terceSr3puS''
   \<and> \<not> isModified alice_saved ''Password''
   \<and> pre_save toy_bf (alice_saved, rng0) = Inr (alice_saved, rng0)
   \<and> Password alice = Some ''Sup3rSecret!''
   \<and> isModified alice ''Password''
   \<and> (\<exists>u' r'. pre_save toy_bf (alice, rng0) = Inr (u', r') \<and> drawn r' = Suc (drawn rng0)
          \<and> Password u' \<noteq> Password alice)"
proof -
  have p: "Password alice_saved = Some ''$2b$10$N9qo8uLOickgx2ZMRZoMye!terceSr3puS''"
    by (simp add: alice_saved_def)
  have m: "\<not> isModified alice_saved ''Password''"
    by (simp add: alice_saved_def isModified_def)
  have s: "pre_save toy_bf (alice_saved, rng0) = Inr (alice_saved, rng0)"
    using m pre_save_rehashes_iff_modified [OF p, of toy_bf rng0] by auto
  obtain u' r' h where a: "pre_save toy_bf (alice, rng0) = Inr (u', r')"
    and d: "drawn r' = Suc (drawn rng0)"
    and h: "bcrypt_hash toy_bf (Some ''Sup3rSecret!'') 10 rng0 = Inr (h, r')"
    and u': "u' = alice\<lparr>Password := Some h\<rparr>"
    using alice_modified pre_save_rehashes_iff_modified [OF alice_Password, of toy_bf rng0]
    by auto
  have "h \<noteq> ''Sup3rSecret!''"
    using h by (auto simp: bcrypt_hash_10 bcrypt_string_def)
  then have "Password u' \<noteq> Password alice"
    using u' alice_Password by simp
  with p m s a d alice_Password alice_modified show ?thesis
    by blast
qed

text \<open>
  C7. The same plaintext \<open>p\<close> is hashed by two runs of the hook, one after the other.
  The randomness of the salt is the random source \<open>r\<close>: whenever the two salts it
  hands out differ, the two stored hash strings differ, and \<open>comparePassword\<close> of
  \<open>p\<close> resolves to \<open>true\<close> against each of them.
\<close>

theorem pre_save_twice_distinct_hashes:
  assumes "Password u = Some p" and "isModified u ''Password''"
    and "valid_salt (pool r (drawn r))" and "valid_salt (pool r (Suc (drawn r)))"
    and "pool r (drawn r) \<noteq> pool r (Suc (drawn r))"
  shows "\<exists>u1 r1 u2 r2. pre_save bf (u, r) = Inr (u1, r1) \<and> pre_save bf (u, r1) = Inr (u2, r2)
           \<and> Password u1 \<noteq> Password u2
           \<and> comparePassword bf (Some p) u1 = Inr True
           \<and> comparePassword bf (Some p) u2 = Inr True"
proof -
  let ?s1 = "pool r (drawn r)" and ?s2 = "pool r (Suc (drawn r))"
  let ?h1 = "bcrypt_string bf p (''$2b$10$'' @ ?s1)" and ?h2 = "bcrypt_string bf p (''$2b$10$'' @ ?s2)"
  let ?r1 = "r\<lparr>drawn := Suc (drawn r)\<rparr>"
  have s1: "pre_save bf (u, r) = Inr (u\<lparr>Password := Some ?h1\<rparr>, ?r1)"
    by (rule pre_save_modified [OF assms(1,2)])
  have s2: "pre_save bf (u, ?r1) = Inr (u\<lparr>Password := Some ?h2\<rparr>, ?r1\<lparr>drawn := Suc (drawn ?r1)\<rparr>)"
    using pre_save_modified [OF assms(1,2), of bf ?r1] by simp
  have "length ?s1 = length ?s2"
    using assms(3,4) by (simp add: valid_salt_def)
  then have ne: "?h1 \<noteq> ?h2"
    using assms(5) bcrypt_string_salt_inj [of ?s1 ?s2 bf p "''$2b$10$''" p] by blast
  have c1: "comparePassword bf (Some p) (u\<lparr>Password := Some ?h1\<rparr>) = Inr True"
    using bcrypt_compare_own [OF assms(3)] by (simp add: comparePassword_def)
  have c2: "comparePassword bf (Some p) (u\<lparr>Password := Some ?h2\<rparr>) = Inr True"
    using bcrypt_compare_own [OF assms(4)] by (simp add: comparePassword_def)
  from s1 s2 ne c1 c2 show ?thesis
    by (intro exI [of _ "u\<lparr>Password := Some ?h1\<rparr>"] exI [of _ ?r1]
          exI [of _ "u\<lparr>Password := Some ?h2\<rparr>"]
          exI [of _ "?r1\<lparr>drawn := Suc (drawn ?r1)\<rparr>"]) simp
qed

theorem pre_save_twice_distinct_hashes_witness:
  "Password alice = Some ''Sup3rSecret!'' \<and> isModified alice ''Password''
   \<and> valid_salt (pool rng0 (drawn rng0)) \<and> valid_salt (pool rng0 (Suc (drawn rng0)))
   \<and> pool rng0 (drawn rng0) \<noteq> pool rng0 (Suc (drawn rng0))
   \<and> (\<exists>u1 r1 u2 r2. pre_save toy_bf (alice, rng0) = Inr (u1, r1)
          \<and> pre_save toy_bf (alice, r1) = Inr (u2, r2)
          \<and> Password u1 \<noteq> Password u2
          \<and> comparePassword toy_bf (Some ''Sup3rSecret!'') u1 = Inr True
          \<and> comparePassword toy_bf (Some ''Sup3rSecret!'') u2 = Inr True)"
proof -
  have v1: "valid_salt (pool rng0 (drawn rng0))"
    by (simp add: rng0_pool salts_valid)
  have v2: "valid_salt (pool rng0 (Suc (drawn rng0)))"
    by (simp add: rng0_pool salts_valid)
  have d: "pool rng0 (drawn rng0) \<noteq> pool rng0 (Suc (drawn rng0))"
    by (simp add: rng0_pool rng0_drawn salts_def)
  show ?thesis
    using alice_Password alice_modified v1 v2 d
      pre_save_twice_distinct_hashes [OF alice_Password alice_modified v1 v2 d, of toy_bf]
    by blast
qed

section \<open>Properties of comparePassword\<close>



lemma comparePassword_absent:
  assumes "attempt = None \<or> Password u = None"
  shows "comparePassword bf attempt u = Inl (Error ''data and hash arguments required'')"
  using assms by (auto simp: comparePassword_def bcrypt_compare_def split: option.splits)





section \<open>Properties of token issuance\<close>


lemma toy_timespan_15m: "toy_timespan ''15m'' 1000 = Some 1900"
  by (simp add: toy_timespan_def)


lemma env0_access: "env0 ''JWT_ACCESS_TOKEN_SECRET'' = Some ''access-secret''"
  by (simp add: env0_def)


text \<open>
  C3. For every user record, when the access-token secret is set and the configured
  lifetime is a time span, \<open>generateAccessToken\<close> returns a token signed with that
  secret whose payload is exactly the four fields \<^verbatim>\<open>_id\<close>, \<^verbatim>\<open>username\<close>,
  \<^verbatim>\<open>email\<close> and \<^verbatim>\<open>fullName\<close> of the user, stamped by \<^verbatim>\<open>jwt.sign\<close> with the time
  of issue and with the expiry that the configured lifetime gives.
\<close>

theorem generateAccessToken_payload_key_expiry:
  assumes "process_env ''JWT_ACCESS_TOKEN_SECRET'' = Some k" and "k \<noteq> []"
    and "JWT_ACCESS_TOKEN_EXPIRY \<noteq> []" and "timespan JWT_ACCESS_TOKEN_EXPIRY now = Some e"
  shows "generateAccessToken timespan now process_env JWT_ACCESS_TOKEN_EXPIRY u =
           Inr \<lparr>claims = [(''_id'', Str (u_id u)), (''username'', Str (username u)),
                          (''email'', Str (email u)), (''fullName'', Str (fullName u)),
                          (''iat'', Num now), (''exp'', Num e)],
                signing_key = k\<rparr>"
  using assms by (simp add: generateAccessToken_def jwt_sign_def)

theorem generateAccessToken_payload_key_expiry_witness:
  "env0 ''JWT_ACCESS_TOKEN_SECRET'' = Some ''access-secret'' \<and> ''access-secret'' \<noteq> []
   \<and> ''15m'' \<noteq> [] \<and> toy_timespan ''15m'' 1000 = Some 1900
   \<and> generateAccessToken toy_timespan 1000 env0 ''15m'' alice =
        Inr \<lparr>claims = [(''_id'', Str ''65f1c0ffee''), (''username'', Str ''alice''),
                       (''email'', Str ''alice@example.com''), (''fullName'', Str ''Alice Liddell''),
                       (''iat'', Num 1000), (''exp'', Num 1900)],
             signing_key = ''access-secret''\<rparr>"
proof -
  have n: "''access-secret'' \<noteq> []" and x: "''15m'' \<noteq> []"
    by simp_all
  show ?thesis
    using env0_access toy_timespan_15m
      generateAccessToken_payload_key_expiry
        [where process_env = env0 and timespan = toy_timespan and u = alice,
         OF env0_access n x toy_timespan_15m]
    by (simp add: alice_def)
qed

lemma env_same_access: "env_same ''JWT_ACCESS_TOKEN_SECRET'' = Some ''shared-secret''"
  by (simp add: env_same_def)

lemma env_same_refresh: "env_same ''JWT_REFRESH_TOKEN_SECRET'' = Some ''shared-secret''"
  by (simp add: env_same_def)




text \<open>
  C5. If the access-token signing secret is absent from the environment when
  \<open>generateAccessToken\<close> is called, the call fails closed: \<^verbatim>\<open>jwt.sign\<close> throws its
  error for a missing secret (the configuration error of this code, which defines no
  error class of its own), and no token is returned.
\<close>

theorem generateAccessToken_without_secret:
  assumes "process_env ''JWT_ACCESS_TOKEN_SECRET'' = None"
  shows "generateAccessToken timespan now process_env JWT_ACCESS_TOKEN_EXPIRY u
           = Inl (Error ''secretOrPrivateKey must have a value'')"
  using assms by (simp add: generateAccessToken_def jwt_sign_def)

theorem generateAccessToken_without_secret_witness:
  "env_no_access ''JWT_ACCESS_TOKEN_SECRET'' = None
   \<and> generateAccessToken toy_timespan 1000 env_no_access ''15m'' alice
        = Inl (Error ''secretOrPrivateKey must have a value'')"
proof -
  have n: "env_no_access ''JWT_ACCESS_TOKEN_SECRET'' = None"
    by (simp add: env_no_access_def)
  show ?thesis
    using n generateAccessToken_without_secret
        [where process_env = env_no_access and timespan = toy_timespan and u = alice, OF n]
    by blast
qed

text \<open>
  C6, as the claim states it, fails: the code does not read the options named
  \<^verbatim>\<open>ACCESS_TOKEN_SECRET\<close> and \<^verbatim>\<open>REFRESH_TOKEN_SECRET\<close>. In an environment that sets
  exactly the four options of the claim, both functions find no secret and issue no
  token.
\<close>

theorem issuance_ignores_unprefixed_options:
  "generateAccessToken toy_timespan 1000 env_spec ''15m'' alice
     = Inl (Error ''secretOrPrivateKey must have a value'')
   \<and> generateRefreshToken toy_timespan 1000 env_spec ''7d'' alice
     = Inl (Error ''secretOrPrivateKey must have a value'')"
  by (simp add: generateAccessToken_def generateRefreshToken_def jwt_sign_def env_spec_def)

text \<open>
  C6, amended. Token issuance reads its signing keys from the environment options
  named \<^verbatim>\<open>JWT_ACCESS_TOKEN_SECRET\<close> and \<^verbatim>\<open>JWT_REFRESH_TOKEN_SECRET\<close>, and from no
  other option: two environments that agree on these two options give the same
  results, the key of every token issued is the value of the option of its kind, and
  its expiry is the one that the value of the identifier \<^verbatim>\<open>JWT_ACCESS_TOKEN_EXPIRY\<close>
  (for the refresh token, \<^verbatim>\<open>JWT_REFRESH_TOKEN_EXPIRY\<close>) gives.
\<close>

theorem issuance_reads_JWT_prefixed_secrets:
  assumes "process_env ''JWT_ACCESS_TOKEN_SECRET'' = process_env' ''JWT_ACCESS_TOKEN_SECRET''"
    and "process_env ''JWT_REFRESH_TOKEN_SECRET'' = process_env' ''JWT_REFRESH_TOKEN_SECRET''"
  shows "generateAccessToken timespan now process_env AE u
           = generateAccessToken timespan now process_env' AE u
       \<and> generateRefreshToken timespan now process_env RE u
           = generateRefreshToken timespan now process_env' RE u
       \<and> (\<forall>tok. generateAccessToken timespan now process_env AE u = Inr tok \<longrightarrow>
             process_env ''JWT_ACCESS_TOKEN_SECRET'' = Some (signing_key tok)
             \<and> map_of (claims tok) ''exp'' = map_option Num (timespan AE now))
       \<and> (\<forall>tok. generateRefreshToken timespan now process_env RE u = Inr tok \<longrightarrow>
             process_env ''JWT_REFRESH_TOKEN_SECRET'' = Some (signing_key tok)
             \<and> map_of (claims tok) ''exp'' = map_option Num (timespan RE now))"
proof -
  have a: "generateAccessToken timespan now process_env AE u
             = generateAccessToken timespan now process_env' AE u"
    using assms(1) by (simp add: generateAccessToken_def)
  have r: "generateRefreshToken timespan now process_env RE u
             = generateRefreshToken timespan now process_env' RE u"
    using assms(2) by (simp add: generateRefreshToken_def)
  have ka: "process_env ''JWT_ACCESS_TOKEN_SECRET'' = Some (signing_key tok)
            \<and> map_of (claims tok) ''exp'' = map_option Num (timespan AE now)"
    if "generateAccessToken timespan now process_env AE u = Inr tok" for tok
    using that by (auto simp: generateAccessToken_def jwt_sign_def split: option.splits if_splits)
  have kr: "process_env ''JWT_REFRESH_TOKEN_SECRET'' = Some (signing_key tok)
            \<and> map_of (claims tok) ''exp'' = map_option Num (timespan RE now)"
    if "generateRefreshToken timespan now process_env RE u = Inr tok" for tok
    using that by (auto simp: generateRefreshToken_def jwt_sign_def split: option.splits if_splits)
  from a r ka kr show ?thesis by blast
qed

theorem issuance_reads_JWT_prefixed_secrets_witness:
  "env_both ''JWT_ACCESS_TOKEN_SECRET'' = env0 ''JWT_ACCESS_TOKEN_SECRET''
   \<and> env_both ''JWT_REFRESH_TOKEN_SECRET'' = env0 ''JWT_REFRESH_TOKEN_SECRET''
   \<and> generateAccessToken toy_timespan 1000 env_both ''15m'' alice
        = generateAccessToken toy_timespan 1000 env0 ''15m'' alice
   \<and> generateRefreshToken toy_timespan 1000 env_both ''7d'' alice
        = generateRefreshToken toy_timespan 1000 env0 ''7d'' alice
   \<and> (\<exists>tok. generateAccessToken toy_timespan 1000 env_both ''15m'' alice = Inr tok
          \<and> signing_key tok = ''access-secret''
          \<and> map_of (claims tok) ''exp'' = Some (Num 1900))"
proof -
  have a: "env_both ''JWT_ACCESS_TOKEN_SECRET'' = env0 ''JWT_ACCESS_TOKEN_SECRET''"
    by (simp add: env_both_def env0_def)
  have r: "env_both ''JWT_REFRESH_TOKEN_SECRET'' = env0 ''JWT_REFRESH_TOKEN_SECRET''"
    by (simp add: env_both_def env0_def)
  have k: "env_both ''JWT_ACCESS_TOKEN_SECRET'' = Some ''access-secret''"
    by (simp add: env_both_def)
  note inst = issuance_reads_JWT_prefixed_secrets
        [where process_env = env_both and process_env' = env0 and timespan = toy_timespan
           and now = 1000 and AE = "''15m''" and RE = "''7d''" and u = alice, OF a r]
  obtain tok where tok: "generateAccessToken toy_timespan 1000 env_both ''15m'' alice = Inr tok"
    using k toy_timespan_15m by (simp add: generateAccessToken_def jwt_sign_def)
  from inst tok have "env_both ''JWT_ACCESS_TOKEN_SECRET'' = Some (signing_key tok)"
    and e: "map_of (claims tok) ''exp'' = map_option Num (toy_timespan ''15m'' 1000)"
    by blast+
  with k toy_timespan_15m have "signing_key tok = ''access-secret''"
    and "map_of (claims tok) ''exp'' = Some (Num 1900)"
    by simp_all
  with tok a r inst show ?thesis
    by blast
qed

section \<open>Properties of the upload helper\<close>

text \<open>
  C9. The claim is what the helper is meant to do; the code does not do it. For
  every non-empty path whose upload succeeds, \<open>uploadonCloudinary\<close> returns the
  \<^verbatim>\<open>response\<close> object imported from express, and not the result of the upload.
\<close>

theorem uploadonCloudinary_success_returns_express_response:
  assumes "path \<noteq> []" and "upload path = Inr uploadResult"
  shows "uploadonCloudinary upload (Some path) files = Inr (ExpressResponse, files)
         \<and> uploadonCloudinary upload (Some path) files \<noteq> Inr (UploadResult uploadResult, files)"
  using assms by (simp add: uploadonCloudinary_def)

theorem uploadonCloudinary_success_returns_express_response_witness:
  "''public/temp/avatar.png'' \<noteq> []
   \<and> upload_ok ''public/temp/avatar.png''
        = Inr \<lparr>url = ''http://res.cloudinary.com/demo/public/temp/avatar.png'', resource_type = ''image''\<rparr>
   \<and> uploadonCloudinary upload_ok (Some ''public/temp/avatar.png'') {''public/temp/avatar.png''}
        = Inr (ExpressResponse, {''public/temp/avatar.png''})"
proof -
  have n: "''public/temp/avatar.png'' \<noteq> []"
    by simp
  have u: "upload_ok ''public/temp/avatar.png''
        = Inr \<lparr>url = ''http://res.cloudinary.com/demo/public/temp/avatar.png'', resource_type = ''image''\<rparr>"
    by (simp add: upload_ok_def)
  show ?thesis
    using n u uploadonCloudinary_success_returns_express_response
        [where upload = upload_ok and files = "{''public/temp/avatar.png''}", OF n u]
    by blast
qed

lemma uploadonCloudinary_failure_unlink_throws:
  assumes "path \<noteq> []" and "upload path = Inl e" and "path \<notin> files"
  shows "uploadonCloudinary upload (Some path) files = Inl (ENOENT path)"
  using assms by (simp add: uploadonCloudinary_def unlinkSync_def)

lemma uploadonCloudinary_falsy_path:
  assumes "localfilepath = None \<or> localfilepath = Some []"
  shows "uploadonCloudinary upload localfilepath files = Inr (Null, files)"
  using assms by (auto simp: uploadonCloudinary_def)

text \<open>
  C10, as the claim states it, fails: when the upload throws and the local file does
  not exist, \<^verbatim>\<open>fs.unlinkSync\<close> throws inside the catch branch, and the helper
  rejects with that error instead of returning \<^verbatim>\<open>undefined\<close>.
\<close>

theorem uploadonCloudinary_failure_missing_file:
  "uploadonCloudinary upload_fails (Some ''public/temp/avatar.png'') {}
     = Inl (ENOENT ''public/temp/avatar.png'')"
  by (simp add: uploadonCloudinary_def upload_fails_def unlinkSync_def)

text \<open>
  C10, amended. If the upload throws for a non-empty path and the local file exists,
  \<open>uploadonCloudinary\<close> deletes the local file and returns \<^verbatim>\<open>undefined\<close>; the
  error of the upload is swallowed in the catch branch and does not reach the caller.
\<close>

theorem uploadonCloudinary_failure_unlinks:
  assumes "path \<noteq> []" and "upload path = Inl e" and "path \<in> files"
  shows "uploadonCloudinary upload (Some path) files = Inr (Undefined, files - {path})"
  using assms by (simp add: uploadonCloudinary_def unlinkSync_def)

theorem uploadonCloudinary_failure_unlinks_witness:
  "''public/temp/avatar.png'' \<noteq> []
   \<and> upload_fails ''public/temp/avatar.png'' = Inl (Error ''upload failed'')
   \<and> ''public/temp/avatar.png'' \<in> {''public/temp/avatar.png'', ''public/temp/cover.png''}
   \<and> uploadonCloudinary upload_fails (Some ''public/temp/avatar.png'')
        {''public/temp/avatar.png'', ''public/temp/cover.png''}
      = Inr (Undefined, {''public/temp/cover.png''})"
proof -
  have n: "''public/temp/avatar.png'' \<noteq> []"
    by simp
  have u: "upload_fails ''public/temp/avatar.png'' = Inl (Error ''upload failed'')"
    by (simp add: upload_fails_def)
  have m: "''public/temp/avatar.png'' \<in> {''public/temp/avatar.png'', ''public/temp/cover.png''}"
    by simp
  have "{''public/temp/avatar.png'', ''public/temp/cover.png''} - {''public/temp/avatar.png''}
          = {''public/temp/cover.png''}"
    by auto
  then show ?thesis
    using n u m uploadonCloudinary_failure_unlinks [where upload = upload_fails, OF n u m]
    by simp
qed

end
